theory Spec2Isabelle
  imports Complex_Main
begin

section \<open>Numbers\<close>

text \<open>
  The program computes with JavaScript numbers. They are modelled as real numbers: every
  quantity below (timestamps in milliseconds, pixel offsets, speeds) is a \<^typ>\<open>real\<close>, and
  a reference that may hold \<open>null\<close> is a \<^typ>\<open>real option\<close>. Rounding of binary floating
  point and the values \<open>NaN\<close> and \<open>Infinity\<close> are outside the model; in particular
  \<open>Number.isFinite\<close> is always true of a modelled number.
\<close>

section \<open>The gamepad sampler (hook \<open>useGamepad\<close>)\<close>

subsection \<open>Constants\<close>

definition BUTTON_A :: nat where "BUTTON_A = 0"
definition BUTTON_X :: nat where "BUTTON_X = 2"
definition BUTTON_Y :: nat where "BUTTON_Y = 3"
definition BUTTON_LB :: nat where "BUTTON_LB = 4"
definition BUTTON_RB :: nat where "BUTTON_RB = 5"
definition BUTTON_DPAD_UP :: nat where "BUTTON_DPAD_UP = 12"
definition BUTTON_DPAD_DOWN :: nat where "BUTTON_DPAD_DOWN = 13"
definition BUTTON_DPAD_LEFT :: nat where "BUTTON_DPAD_LEFT = 14"
definition BUTTON_DPAD_RIGHT :: nat where "BUTTON_DPAD_RIGHT = 15"

definition DEADZONE :: real where "DEADZONE = 0.15"
definition DEBOUNCE_TIME :: real where "DEBOUNCE_TIME = 200"
definition SMOOTH_FACTOR :: real where "SMOOTH_FACTOR = 0.9"
definition MANUAL_SCROLL_MIN :: real where "MANUAL_SCROLL_MIN = 5"
definition MANUAL_SCROLL_MAX :: real where "MANUAL_SCROLL_MAX = 25"

subsection \<open>Data\<close>

text \<open>The callbacks of \<open>GamepadControls\<close> that a button can be bound to.\<close>

datatype action =
    PlayPause
  | MirrorToggle
  | FullscreenToggle
  | JumpToStart
  | JumpToEnd
  | SpeedDecrease
  | SpeedIncrease
  | FontSizeIncrease
  | FontSizeDecrease

text \<open>
  What one run of \<open>poll\<close> calls on its \<open>controls\<close>, in the order of the calls:
  \<open>onPauseFromManualScroll()\<close>, \<open>onManualScroll(delta)\<close>, and the queued button actions.
\<close>

datatype effect =
    PauseFromManualScroll
  | ManualScroll real
  | is_Dispatch: Dispatch action

text \<open>
  A connected device: the \<open>pressed\<close> flag of each entry of \<open>gamepad.buttons\<close> and the
  entries of \<open>gamepad.axes\<close>.
\<close>

record gamepad =
  buttons :: "bool list"
  axes :: "real list"

text \<open>The three references the hook keeps between frames.\<close>

record sampler =
  lastPress :: "nat \<rightharpoonup> real"
  gp_lastTimestamp :: "real option"
  smoothedScrollSpeed :: real

definition initial_sampler :: sampler where
  "initial_sampler = \<lparr>lastPress = Map.empty, gp_lastTimestamp = None, smoothedScrollSpeed = 0\<rparr>"

subsection \<open>Buttons\<close>

text \<open>\<open>pressedButtons[i]?.pressed\<close>: an index past the end reads \<open>undefined\<close>, which is falsy.\<close>

definition pressed :: "bool list \<Rightarrow> nat \<Rightarrow> bool" where
  "pressed bs i = (i < length bs \<and> bs ! i)"

text \<open>
  \<open>registerPress\<close>, closed over \<open>now\<close>, the ledger \<open>lastPress\<close> and the queue
  \<open>buttonsHandled\<close> of the frame; the last two are passed and returned.
\<close>

definition registerPress ::
  "real \<Rightarrow> nat \<Rightarrow> action \<Rightarrow> (nat \<rightharpoonup> real) \<times> action list \<Rightarrow> (nat \<rightharpoonup> real) \<times> action list" where
  "registerPress now index act q =
     (let last = (case fst q index of None \<Rightarrow> 0 | Some v \<Rightarrow> v) in
      if now - last \<ge> DEBOUNCE_TIME
      then ((fst q)(index \<mapsto> now), snd q @ [act])
      else q)"

text \<open>The nine guarded calls of \<open>registerPress\<close>, in the order of the source.\<close>

definition buttonBindings :: "(nat \<times> action) list" where
  "buttonBindings =
     [(BUTTON_A, PlayPause),
      (BUTTON_Y, MirrorToggle),
      (BUTTON_X, FullscreenToggle),
      (BUTTON_LB, JumpToStart),
      (BUTTON_RB, JumpToEnd),
      (BUTTON_DPAD_LEFT, SpeedDecrease),
      (BUTTON_DPAD_RIGHT, SpeedIncrease),
      (BUTTON_DPAD_UP, FontSizeIncrease),
      (BUTTON_DPAD_DOWN, FontSizeDecrease)]"

definition processButtons ::
  "real \<Rightarrow> bool list \<Rightarrow> (nat \<rightharpoonup> real) \<times> action list \<Rightarrow> (nat \<rightharpoonup> real) \<times> action list" where
  "processButtons now bs q =
     fold (\<lambda>b acc. if pressed bs (fst b) then registerPress now (fst b) (snd b) acc else acc)
       buttonBindings q"

subsection \<open>The vertical axis of the left stick\<close>

text \<open>\<open>gamepad.axes[1] ?? 0\<close>\<close>

definition leftStickY :: "real list \<Rightarrow> real" where
  "leftStickY ax = (if 1 < length ax then ax ! 1 else 0)"

definition targetSpeed :: "real \<Rightarrow> real" where
  "targetSpeed y =
     (let magnitude = \<bar>y\<bar>;
          direction = (if y > 0 then 1 else - 1);
          normalized = (magnitude - DEADZONE) / (1 - DEADZONE)
      in direction * (MANUAL_SCROLL_MIN + (MANUAL_SCROLL_MAX - MANUAL_SCROLL_MIN) * normalized ^ 2))"

text \<open>
  The body of \<open>poll\<close> from \<open>const leftStickY\<close> to the end of the loop body. It returns the
  new \<open>lastTimestampRef\<close> and \<open>smoothedScrollSpeedRef\<close> and the calls made on \<open>controls\<close>.
\<close>

definition processAxis ::
  "real \<Rightarrow> bool \<Rightarrow> real \<Rightarrow> real option \<times> real \<Rightarrow> (real option \<times> real) \<times> effect list" where
  "processAxis timestamp playing y refs =
     (let magnitude = \<bar>y\<bar> in
      if magnitude > DEADZONE then
        (let pause = (if playing then [PauseFromManualScroll] else []);
             deltaTime = (case fst refs of None \<Rightarrow> 0 | Some l \<Rightarrow> (timestamp - l) / 1000);
             smoothed = snd refs * SMOOTH_FACTOR + targetSpeed y * (1 - SMOOTH_FACTOR);
             scrollDelta = smoothed * deltaTime * 50
         in ((Some timestamp, smoothed),
             pause @ (if deltaTime > 0 then [ManualScroll scrollDelta] else [])))
      else ((Some timestamp, 0), []))"

subsection \<open>One frame\<close>

text \<open>
  The loop body for one connected gamepad. The accumulator is the sampler state, the queue
  \<open>buttonsHandled\<close> and the calls already made on \<open>controls\<close> in this frame.
\<close>

definition pollGamepad ::
  "real \<Rightarrow> bool \<Rightarrow> gamepad \<Rightarrow> sampler \<times> action list \<times> effect list
     \<Rightarrow> sampler \<times> action list \<times> effect list" where
  "pollGamepad timestamp playing g acc =
     (let s = fst acc;
          q = processButtons timestamp (buttons g) (lastPress s, fst (snd acc));
          r = processAxis timestamp playing (leftStickY (axes g))
                (gp_lastTimestamp s, smoothedScrollSpeed s)
      in (\<lparr>lastPress = fst q, gp_lastTimestamp = fst (fst r), smoothedScrollSpeed = snd (fst r)\<rparr>,
          snd q,
          snd (snd acc) @ snd r))"

text \<open>
  \<open>poll(timestamp)\<close> over the array returned by \<open>navigator.getGamepads()\<close>, whose empty
  slots are \<open>null\<close>. The result is the sampler state and the calls made on \<open>controls\<close>:
  those of the device loop, then the queued actions.
\<close>

definition pollDevices ::
  "real \<Rightarrow> bool \<Rightarrow> gamepad option list \<Rightarrow> sampler \<Rightarrow> sampler \<times> action list \<times> effect list" where
  "pollDevices timestamp playing gamepads s =
     fold (\<lambda>g acc. case g of None \<Rightarrow> acc | Some gp \<Rightarrow> pollGamepad timestamp playing gp acc)
       gamepads (s, [], [])"

definition poll ::
  "real \<Rightarrow> bool \<Rightarrow> gamepad option list \<Rightarrow> sampler \<Rightarrow> sampler \<times> effect list" where
  "poll timestamp playing gamepads s =
     (let r = pollDevices timestamp playing gamepads s
      in (fst r, snd (snd r) @ map Dispatch (fst (snd r))))"

text \<open>A sequence of frames: timestamp, \<open>controls.isPlaying\<close> and the devices of each.\<close>

definition run_frames :: "(real \<times> bool \<times> gamepad option list) list \<Rightarrow> sampler \<Rightarrow> sampler" where
  "run_frames frames s = fold (\<lambda>f st. fst (poll (fst f) (fst (snd f)) (snd (snd f)) st)) frames s"

section \<open>The text viewport (component \<open>TextViewport\<close>)\<close>

definition LINE_HEIGHT_EM :: real where "LINE_HEIGHT_EM = 1.3"
definition DEAD_BAND :: real where "DEAD_BAND = 1"

subsection \<open>The scroll container\<close>

text \<open>The three properties of the scroll container that the program reads.\<close>

record element =
  scrollTop :: real
  scrollHeight :: real
  clientHeight :: real

text \<open>
  Modelled from the spec: the clamping of the scroll offset. The sources never clamp the
  offset themselves: they call \<open>scrollTo\<close> and \<open>scrollBy\<close> and assign \<open>scrollTop\<close> on
  the scroll container, whose implementation belongs to the browser and is not among the
  sources. The specification says that after any mutation the offset is clamped to
  \<open>[0, extent]\<close>, where \<open>extent\<close> is the content height minus the viewport size, clamped
  to \<open>\<ge> 0\<close>. \<open>maxScrollTop\<close> is that extent and \<open>setScrollTop\<close> that clamped write; the
  three ways of scrolling used by the sources are written with it.
\<close>

definition maxScrollTop :: "element \<Rightarrow> real" where
  "maxScrollTop el = max 0 (scrollHeight el - clientHeight el)"

definition setScrollTop :: "element \<Rightarrow> real \<Rightarrow> element" where
  "setScrollTop el v = el\<lparr>scrollTop := min (max v 0) (maxScrollTop el)\<rparr>"

definition scrollTo :: "element \<Rightarrow> real \<Rightarrow> element" where
  "scrollTo el pos = setScrollTop el pos"

definition scrollBy :: "element \<Rightarrow> real \<Rightarrow> element" where
  "scrollBy el d = setScrollTop el (scrollTop el + d)"

subsection \<open>State and notifications\<close>

text \<open>
  The references of the component: the scroll container (\<open>null\<close> while not mounted), the
  last frame timestamp of the autoscroll loop and the sub-pixel accumulator.
\<close>

record viewport =
  scrollContainer :: "element option"
  vp_lastTimestamp :: "real option"
  scrollAccumulator :: real

text \<open>The calls the component makes on its props \<open>onScrollChange\<close> and \<open>onReachEnd\<close>.\<close>

datatype notification =
    ScrollChange real real real
  | is_ReachEnd: ReachEnd

definition getScrollInfo :: "viewport \<Rightarrow> real \<times> real \<times> real" where
  "getScrollInfo vp =
     (case scrollContainer vp of
        None \<Rightarrow> (0, 1, 1)
      | Some el \<Rightarrow> (scrollTop el, scrollHeight el, clientHeight el))"

definition notifyScroll :: "viewport \<Rightarrow> notification list" where
  "notifyScroll vp =
     (let info = getScrollInfo vp;
          pos = fst info; height = fst (snd info); client = snd (snd info);
          maxScroll = height - client
      in ScrollChange pos height client # (if maxScroll - pos \<le> DEAD_BAND then [ReachEnd] else []))"

definition scrollToStart :: "viewport \<Rightarrow> viewport \<times> notification list" where
  "scrollToStart vp =
     (case scrollContainer vp of
        None \<Rightarrow> (vp, [])
      | Some el \<Rightarrow>
          (let vp' = vp\<lparr>scrollContainer := Some (scrollTo el 0)\<rparr> in (vp', notifyScroll vp')))"

definition scrollToEnd :: "viewport \<Rightarrow> viewport \<times> notification list" where
  "scrollToEnd vp =
     (case scrollContainer vp of
        None \<Rightarrow> (vp, [])
      | Some el \<Rightarrow>
          (let vp' = vp\<lparr>scrollContainer := Some (scrollTo el (scrollHeight el))\<rparr>
           in (vp', notifyScroll vp')))"

definition manualScroll :: "real \<Rightarrow> viewport \<Rightarrow> viewport \<times> notification list" where
  "manualScroll delta vp =
     (case scrollContainer vp of
        None \<Rightarrow> (vp, [])
      | Some el \<Rightarrow>
          (let vp' = vp\<lparr>scrollContainer := Some (scrollBy el delta)\<rparr> in (vp', notifyScroll vp')))"

subsection \<open>The autoscroll loop\<close>

text \<open>The linear curve of \<open>tick\<close>: \<open>t\<close>, \<open>linesPerSec\<close> and \<open>pxPerSec\<close>.\<close>

definition autoscrollPxPerSec :: "real \<Rightarrow> real \<Rightarrow> real" where
  "autoscrollPxPerSec spd lineHeightPx =
     (let t = (spd - 1) / 49;
          linesPerSec = 0.5 + 9.5 * t
      in linesPerSec * lineHeightPx)"

text \<open>
  \<open>tick(timestamp)\<close> with the props \<open>isPlaying\<close>, \<open>speed\<close> and the memoised
  \<open>lineHeightPx\<close> it was created with. Rescheduling itself is not part of the model.
\<close>

definition tick ::
  "real \<Rightarrow> bool \<Rightarrow> real \<Rightarrow> real \<Rightarrow> viewport \<Rightarrow> viewport \<times> notification list" where
  "tick timestamp playing spd lineHeightPx vp =
     (if \<not> playing then (vp\<lparr>vp_lastTimestamp := Some timestamp\<rparr>, [])
      else case scrollContainer vp of
        None \<Rightarrow> (vp\<lparr>vp_lastTimestamp := Some timestamp\<rparr>, [])
      | Some el \<Rightarrow>
          (let last = (case vp_lastTimestamp vp of None \<Rightarrow> timestamp | Some l \<Rightarrow> l);
               deltaSeconds = (timestamp - last) / 1000;
               scrollDelta = autoscrollPxPerSec spd lineHeightPx * deltaSeconds;
               acc = scrollAccumulator vp + scrollDelta;
               wholePixels = real_of_int \<lfloor>acc\<rfloor>;
               el' = (if wholePixels \<noteq> 0 then setScrollTop el (scrollTop el + wholePixels) else el);
               acc' = (if wholePixels \<noteq> 0 then acc - wholePixels else acc);
               vp' = \<lparr>scrollContainer = Some el', vp_lastTimestamp = Some timestamp,
                      scrollAccumulator = acc'\<rparr>;
               notes = (if wholePixels \<noteq> 0 then notifyScroll vp' else []);
               maxScroll = scrollHeight el' - clientHeight el'
           in (vp', notes @ (if scrollTop el' \<ge> maxScroll - DEAD_BAND then [ReachEnd] else []))))"

text \<open>The effect on \<open>[lineHeightPx]\<close>: run when the line height changes.\<close>

definition resetAccumulator :: "viewport \<Rightarrow> viewport" where
  "resetAccumulator vp =
     (case scrollContainer vp of None \<Rightarrow> vp | Some el \<Rightarrow> vp\<lparr>scrollAccumulator := 0\<rparr>)"

section \<open>The application (component \<open>App\<close>)\<close>

definition MIN_SPEED :: real where "MIN_SPEED = 1"
definition MAX_SPEED :: real where "MAX_SPEED = 50"
definition MIN_FONT_SIZE :: real where "MIN_FONT_SIZE = 24"

definition clamp :: "real \<Rightarrow> real \<Rightarrow> real \<Rightarrow> real" where
  "clamp v lo hi = min (max v lo) hi"

text \<open>\<open>Math.round\<close>: the nearest integer, a half rounded up.\<close>

definition round_half_up :: "real \<Rightarrow> real" where
  "round_half_up v = real_of_int \<lfloor>v + 1 / 2\<rfloor>"

text \<open>
  The state of \<open>App\<close> that the scroll engine reads or writes: the \<open>useState\<close> values
  and the three timer references \<open>startTimeRef\<close>, \<open>pausedTimeRef\<close> and \<open>pauseStartRef\<close>.
\<close>

record app =
  isPlaying :: bool
  speed :: real
  fontSizePx :: real
  mirror :: bool
  elapsedTime :: real
  remainingTime :: real
  progress :: real
  containerHeight :: real
  startTime :: "real option"
  pausedTime :: real
  pauseStart :: "real option"

text \<open>
  A handler is a closure made by one render. What it reads of the \<open>useState\<close> values is
  what that render saw, the argument \<open>snap\<close>; what it writes goes to the state \<open>a\<close> that
  the next render will see; the references are read and written in \<open>a\<close>. \<open>Date.now()\<close> is
  the argument \<open>now\<close>.
\<close>

definition maxFontSize :: "app \<Rightarrow> real" where
  "maxFontSize snap =
     (if containerHeight snap > 0 then real_of_int \<lfloor>containerHeight snap / 3\<rfloor> else 192)"

text \<open>The eased curve of \<open>handleScrollChange\<close>: \<open>lineHeightPx\<close>, \<open>t\<close>, \<open>curved\<close>, \<open>pxPerSec\<close>.\<close>

definition telemetryPxPerSec :: "real \<Rightarrow> real \<Rightarrow> real" where
  "telemetryPxPerSec spd fontSize =
     (let lineHeightPx = fontSize * 1.3;
          t = (spd - MIN_SPEED) / (MAX_SPEED - MIN_SPEED);
          curved = t powr 1.2;
          linesPerSec = 0.2 + 4.8 * curved
      in linesPerSec * lineHeightPx)"

definition handleScrollChange :: "app \<Rightarrow> real \<Rightarrow> real \<Rightarrow> real \<Rightarrow> app \<Rightarrow> app" where
  "handleScrollChange snap pos height client a =
     (let maxScroll = max (height - client) 1;
          progressPercent = clamp (pos / maxScroll * 100) 0 100;
          remainingScroll = max (maxScroll - pos) 0;
          pxPerSec = telemetryPxPerSec (speed snap) (fontSizePx snap);
          remainingSeconds = (if pxPerSec > 0 then remainingScroll / pxPerSec else 0)
      in a\<lparr>progress := progressPercent, remainingTime := remainingSeconds\<rparr>)"

definition resetTimers :: "app \<Rightarrow> app" where
  "resetTimers a =
     a\<lparr>elapsedTime := 0, remainingTime := 0, progress := 0,
       startTime := None, pausedTime := 0, pauseStart := None, isPlaying := False\<rparr>"

text \<open>A reference holding a number is falsy when it is \<open>null\<close> or \<open>0\<close>.\<close>

definition falsy :: "real option \<Rightarrow> bool" where
  "falsy r = (case r of None \<Rightarrow> True | Some v \<Rightarrow> v = 0)"

definition handleStart :: "real \<Rightarrow> app \<Rightarrow> app" where
  "handleStart now a =
     (let a1 = (if falsy (startTime a) then a\<lparr>startTime := Some now, pausedTime := 0\<rparr> else a);
          a2 = (case pauseStart a1 of
                  None \<Rightarrow> a1
                | Some p \<Rightarrow>
                    if p = 0 then a1
                    else a1\<lparr>pausedTime := pausedTime a1 + (now - p), pauseStart := None\<rparr>)
      in a2\<lparr>isPlaying := True\<rparr>)"

definition handlePause :: "app \<Rightarrow> real \<Rightarrow> app \<Rightarrow> app" where
  "handlePause snap now a =
     (if isPlaying snap then a\<lparr>pauseStart := Some now, isPlaying := False\<rparr> else a)"

definition handleSpeedChange :: "real \<Rightarrow> app \<Rightarrow> app" where
  "handleSpeedChange v a = a\<lparr>speed := clamp (round_half_up v) MIN_SPEED MAX_SPEED\<rparr>"

definition handleFontSizeChange :: "app \<Rightarrow> real \<Rightarrow> app \<Rightarrow> app" where
  "handleFontSizeChange snap v a =
     a\<lparr>fontSizePx := clamp (round_half_up v) MIN_FONT_SIZE (maxFontSize snap)\<rparr>"

definition handleMirrorToggle :: "app \<Rightarrow> app" where
  "handleMirrorToggle a = a\<lparr>mirror := \<not> mirror a\<rparr>"

definition handlePauseFromManualScroll :: "app \<Rightarrow> real \<Rightarrow> app \<Rightarrow> app" where
  "handlePauseFromManualScroll snap now a = (if isPlaying snap then handlePause snap now a else a)"

text \<open>The prop \<open>onReachEnd\<close> that \<open>App\<close> passes to the viewport.\<close>

definition onReachEnd :: "app \<Rightarrow> app" where
  "onReachEnd a = a\<lparr>isPlaying := False\<rparr>"

text \<open>\<open>App\<close> receiving the calls of the viewport, in their order.\<close>

definition notify :: "app \<Rightarrow> notification \<Rightarrow> app \<Rightarrow> app" where
  "notify snap n a =
     (case n of
        ScrollChange pos height client \<Rightarrow> handleScrollChange snap pos height client a
      | ReachEnd \<Rightarrow> onReachEnd a)"

definition notifyAll :: "app \<Rightarrow> notification list \<Rightarrow> app \<Rightarrow> app" where
  "notifyAll snap ns a = fold (notify snap) ns a"

text \<open>
  The handlers that reach the viewport through \<open>textViewportRef\<close> work on the pair of the
  application state and the viewport.
\<close>

definition handleGoToStart :: "app \<Rightarrow> app \<times> viewport \<Rightarrow> app \<times> viewport" where
  "handleGoToStart snap w =
     (let r = scrollToStart (snd w) in (resetTimers (notifyAll snap (snd r) (fst w)), fst r))"

definition handleGoToEnd :: "app \<Rightarrow> app \<times> viewport \<Rightarrow> app \<times> viewport" where
  "handleGoToEnd snap w =
     (let r = scrollToEnd (snd w) in (notifyAll snap (snd r) (fst w), fst r))"

definition handleManualScroll :: "app \<Rightarrow> real \<Rightarrow> app \<times> viewport \<Rightarrow> app \<times> viewport" where
  "handleManualScroll snap delta w =
     (let r = manualScroll delta (snd w) in (notifyAll snap (snd r) (fst w), fst r))"

text \<open>
  The object \<open>gamepadControls\<close>: what each callback of the sampler does. The fullscreen
  toggle acts on the document only, which is not part of the state.
\<close>

definition runAction :: "app \<Rightarrow> real \<Rightarrow> action \<Rightarrow> app \<times> viewport \<Rightarrow> app \<times> viewport" where
  "runAction snap now act w =
     (case act of
        PlayPause \<Rightarrow>
          ((if isPlaying snap then handlePause snap now (fst w) else handleStart now (fst w)), snd w)
      | MirrorToggle \<Rightarrow> (handleMirrorToggle (fst w), snd w)
      | FullscreenToggle \<Rightarrow> w
      | JumpToStart \<Rightarrow> handleGoToStart snap w
      | JumpToEnd \<Rightarrow> handleGoToEnd snap w
      | SpeedDecrease \<Rightarrow> (handleSpeedChange (speed snap - 1) (fst w), snd w)
      | SpeedIncrease \<Rightarrow> (handleSpeedChange (speed snap + 1) (fst w), snd w)
      | FontSizeIncrease \<Rightarrow> (handleFontSizeChange snap (fontSizePx snap + 1) (fst w), snd w)
      | FontSizeDecrease \<Rightarrow> (handleFontSizeChange snap (fontSizePx snap - 1) (fst w), snd w))"

definition runEffect :: "app \<Rightarrow> real \<Rightarrow> effect \<Rightarrow> app \<times> viewport \<Rightarrow> app \<times> viewport" where
  "runEffect snap now e w =
     (case e of
        PauseFromManualScroll \<Rightarrow> (handlePauseFromManualScroll snap now (fst w), snd w)
      | ManualScroll delta \<Rightarrow> handleManualScroll snap delta w
      | Dispatch act \<Rightarrow> runAction snap now act w)"

section \<open>Frames and sequences of scroll operations\<close>

text \<open>
  The two loops are separate \<open>requestAnimationFrame\<close> callbacks. In one animation frame
  the browser calls each of them once with the frame's timestamp. Both are closures of the
  last render, so both read the \<open>isPlaying\<close>, \<open>speed\<close> and \<open>fontSizePx\<close> of that render
  (\<open>snap\<close>), whatever a handler has asked \<open>setIsPlaying\<close> to do in between.
\<close>

definition tickFrame :: "real \<Rightarrow> app \<Rightarrow> app \<times> viewport \<Rightarrow> app \<times> viewport" where
  "tickFrame timestamp snap w =
     (let r = tick timestamp (isPlaying snap) (speed snap) (fontSizePx snap * LINE_HEIGHT_EM) (snd w)
      in (notifyAll snap (snd r) (fst w), fst r))"

definition pollFrame ::
  "real \<Rightarrow> real \<Rightarrow> gamepad option list \<Rightarrow> app \<Rightarrow> (app \<times> viewport) \<times> sampler
     \<Rightarrow> (app \<times> viewport) \<times> sampler" where
  "pollFrame timestamp now gamepads snap ws =
     (let r = poll timestamp (isPlaying snap) gamepads (snd ws)
      in (fold (runEffect snap now) (snd r) (fst ws), fst r))"

text \<open>The operations of the viewport that move the scroll offset.\<close>

datatype scroll_op =
    OpManualScroll real
  | OpTick real bool real real
  | OpScrollToStart
  | OpScrollToEnd

definition applyOp :: "scroll_op \<Rightarrow> viewport \<Rightarrow> viewport" where
  "applyOp op vp =
     (case op of
        OpManualScroll delta \<Rightarrow> fst (manualScroll delta vp)
      | OpTick timestamp playing spd lineHeightPx \<Rightarrow> fst (tick timestamp playing spd lineHeightPx vp)
      | OpScrollToStart \<Rightarrow> fst (scrollToStart vp)
      | OpScrollToEnd \<Rightarrow> fst (scrollToEnd vp))"

definition applyOps :: "scroll_op list \<Rightarrow> viewport \<Rightarrow> viewport" where
  "applyOps ops vp = fold applyOp ops vp"

text \<open>The invariant of the scroll state: \<open>0 \<le> offset \<le> extent\<close>.\<close>

definition offset_in_range :: "viewport \<Rightarrow> bool" where
  "offset_in_range vp =
     (case scrollContainer vp of
        None \<Rightarrow> True
      | Some el \<Rightarrow> 0 \<le> scrollTop el \<and> scrollTop el \<le> maxScrollTop el)"

text \<open>Raw axis values inside \<open>[-1, 1]\<close>, for a device, and for every device of a frame.\<close>

definition device_axis_in_range :: "gamepad option \<Rightarrow> bool" where
  "device_axis_in_range g =
     (case g of None \<Rightarrow> True | Some gp \<Rightarrow> \<bar>leftStickY (axes gp)\<bar> \<le> 1)"

definition frame_axes_in_range :: "real \<times> bool \<times> gamepad option list \<Rightarrow> bool" where
  "frame_axes_in_range f = list_all device_axis_in_range (snd (snd f))"

section \<open>Debounce of the buttons\<close>

text \<open>
  With an entry in the ledger, a press is accepted exactly when at least \<open>DEBOUNCE_TIME\<close>
  has passed since the entry, and an accepted press moves the entry to the frame's
  timestamp and appends the action to the queue.
\<close>

lemma registerPress_repeat:
  "fst q index = Some t1 \<Longrightarrow>
     registerPress t2 index act q =
       (if t2 - t1 \<ge> DEBOUNCE_TIME then ((fst q)(index \<mapsto> t2), snd q @ [act]) else q)"
  by (simp add: registerPress_def)

text \<open>
  Without an entry the ledger is read as \<open>0\<close>, so the first press of a control is accepted
  only on a frame whose timestamp is at least \<open>DEBOUNCE_TIME\<close>.
\<close>

lemma registerPress_first:
  "fst q index = None \<Longrightarrow>
     registerPress now index act q =
       (if now \<ge> DEBOUNCE_TIME then ((fst q)(index \<mapsto> now), snd q @ [act]) else q)"
  by (simp add: registerPress_def)

lemma registerPress_debounce_examples:
  "snd (registerPress 400 i act (registerPress 250 i act (Map.empty, []))) = [act]"
  "snd (registerPress 500 i act (registerPress 250 i act (Map.empty, []))) = [act, act]"
  by (simp_all add: registerPress_def DEBOUNCE_TIME_def)

text \<open>
  Claim C1 says that the first press of a control, with no ledger entry yet, is accepted
  whatever the frame's timestamp, and that of two presses at \<open>t = 0\<close> and \<open>t = 150\<close> the
  first is accepted. In the program button A held down on a frame at \<open>t = 0\<close> and again at
  \<open>t = 150\<close>, starting from the empty ledger, queues nothing in either frame and leaves the
  ledger empty: the missing entry is read as a press at time \<open>0\<close>.
\<close>

theorem first_press_rejected_before_debounce_time:
  "snd (poll 0 False [Some \<lparr>buttons = [True], axes = []\<rparr>] initial_sampler) = [] \<and>
   snd (poll 150 False [Some \<lparr>buttons = [True], axes = []\<rparr>]
          (fst (poll 0 False [Some \<lparr>buttons = [True], axes = []\<rparr>] initial_sampler))) = [] \<and>
   registerPress 150 BUTTON_A PlayPause (Map.empty, []) = (Map.empty, [])"
  by (simp add: poll_def pollDevices_def pollGamepad_def processButtons_def buttonBindings_def
      pressed_def registerPress_def DEBOUNCE_TIME_def initial_sampler_def processAxis_def
      leftStickY_def DEADZONE_def BUTTON_A_def BUTTON_X_def BUTTON_Y_def BUTTON_LB_def
      BUTTON_RB_def BUTTON_DPAD_UP_def BUTTON_DPAD_DOWN_def BUTTON_DPAD_LEFT_def
      BUTTON_DPAD_RIGHT_def)

section \<open>Elapsed time of a frame\<close>

text \<open>
  The sampler computes \<open>deltaTime\<close> without a lower bound, but calls \<open>onManualScroll\<close> only
  when \<open>deltaTime > 0\<close>: a frame with no previous timestamp, or one not later than the
  previous timestamp, scrolls nothing.
\<close>

lemma processAxis_no_delta_without_progress:
  assumes "case fst refs of None \<Rightarrow> True | Some l \<Rightarrow> timestamp \<le> l"
  shows "ManualScroll d \<notin> set (snd (processAxis timestamp playing y refs))"
  using assms by (auto simp: processAxis_def Let_def split: option.splits)

text \<open>
  The autoscroll loop treats a missing previous timestamp as the frame's own, so its first
  frame has \<open>deltaSeconds = 0\<close> and adds nothing to the accumulator.
\<close>

lemma tick_first_frame:
  assumes "vp_lastTimestamp vp = None" and "scrollContainer vp = Some el"
    and "\<lfloor>scrollAccumulator vp\<rfloor> = 0"
  shows "fst (tick timestamp True spd lineHeightPx vp) = vp\<lparr>vp_lastTimestamp := Some timestamp\<rparr>"
  using assms by (simp add: tick_def Let_def)

text \<open>
  Claim C2 says that in both loops a frame whose timestamp is not later than the stored
  one yields \<open>dt = 0\<close> and no scroll, and that timing never produces a negative scroll
  delta. The autoscroll loop has no such guard: a frame at \<open>t = 900\<close> after one at
  \<open>t = 1000\<close>, at speed 1 with a line height of 52px, has \<open>deltaSeconds = -0.1\<close>, adds
  \<open>-2.6\<close> to the accumulator and scrolls three pixels back, from 100 to 97.
\<close>

theorem tick_scrolls_back_on_earlier_timestamp:
  "tick 900 True 1 52
     \<lparr>scrollContainer = Some \<lparr>scrollTop = 100, scrollHeight = 1000, clientHeight = 200\<rparr>,
      vp_lastTimestamp = Some 1000, scrollAccumulator = 0\<rparr>
   = (\<lparr>scrollContainer = Some \<lparr>scrollTop = 97, scrollHeight = 1000, clientHeight = 200\<rparr>,
       vp_lastTimestamp = Some 900, scrollAccumulator = 0.4\<rparr>,
      [ScrollChange 97 1000 200])"
  by (simp add: tick_def autoscrollPxPerSec_def setScrollTop_def maxScrollTop_def
      notifyScroll_def getScrollInfo_def DEAD_BAND_def Let_def)

section \<open>Manual input and playback\<close>

lemma notify_keeps_paused: "\<not> isPlaying a \<Longrightarrow> \<not> isPlaying (notify snap n a)"
  by (cases n) (simp_all add: notify_def handleScrollChange_def Let_def onReachEnd_def)

lemma notify_keeps_pauseStart: "pauseStart (notify snap n a) = pauseStart a"
  by (cases n) (simp_all add: notify_def handleScrollChange_def Let_def onReachEnd_def)

lemma notifyAll_keeps_paused: "\<not> isPlaying a \<Longrightarrow> \<not> isPlaying (notifyAll snap ns a)"
proof (induction ns arbitrary: a)
  case Nil
  then show ?case by (simp add: notifyAll_def)
next
  case (Cons n ns)
  have "\<not> isPlaying (notify snap n a)" using Cons.prems by (rule notify_keeps_paused)
  then have "\<not> isPlaying (notifyAll snap ns (notify snap n a))" by (rule Cons.IH)
  then show ?case by (simp add: notifyAll_def)
qed

lemma notifyAll_keeps_pauseStart: "pauseStart (notifyAll snap ns a) = pauseStart a"
proof (induction ns arbitrary: a)
  case Nil
  then show ?case by (simp add: notifyAll_def)
next
  case (Cons n ns)
  show ?case
    using Cons.IH[of "notify snap n a"] by (simp add: notifyAll_def notify_keeps_pauseStart)
qed

text \<open>
  Claim C3, as amended. In a sampler frame in which \<open>controls.isPlaying\<close> holds, every
  device whose stick is beyond the deadzone adds to the calls of the frame a call of
  \<open>onPauseFromManualScroll\<close> first, and after it a call of \<open>onManualScroll\<close> only when
  the sampler has a previous timestamp earlier than the frame's; this holds for each
  device of any list of devices, and the queued button actions come after the calls of
  all devices. Running the pause and an analog delta \<open>d\<close> leaves \<open>isPlaying\<close> false with
  the start of the pause recorded, and moves the offset by \<open>d\<close>, clamped to the scroll
  range. The pause does not reach the autoscroll loop in the same frame: \<open>tick\<close>, the
  closure of the render that saw \<open>isPlaying = true\<close>, still moves the offset by the whole
  pixels of its accumulator, also when the pause handler has already run.
\<close>

theorem manual_input_pauses_before_delta:
  assumes "isPlaying snap" and "DEADZONE < \<bar>leftStickY (axes g)\<bar>"
    and "scrollContainer vp = Some el"
  shows
   "snd (snd (pollGamepad timestamp (isPlaying snap) g acc)) =
      snd (snd acc) @
      PauseFromManualScroll #
      (case gp_lastTimestamp (fst acc) of
         None \<Rightarrow> []
       | Some l \<Rightarrow>
           if l < timestamp
           then [ManualScroll ((smoothedScrollSpeed (fst acc) * SMOOTH_FACTOR
                   + targetSpeed (leftStickY (axes g)) * (1 - SMOOTH_FACTOR))
                   * ((timestamp - l) / 1000) * 50)]
           else []) \<and>
    pollDevices timestamp (isPlaying snap) (gamepads @ [Some g]) s
      = pollGamepad timestamp (isPlaying snap) g
          (pollDevices timestamp (isPlaying snap) gamepads s) \<and>
    snd (poll timestamp (isPlaying snap) gamepads s)
      = snd (snd (pollDevices timestamp (isPlaying snap) gamepads s))
        @ map Dispatch (fst (snd (pollDevices timestamp (isPlaying snap) gamepads s))) \<and>
    snd (poll timestamp (isPlaying snap) [Some g] s) =
      PauseFromManualScroll #
      (case gp_lastTimestamp s of
         None \<Rightarrow> []
       | Some l \<Rightarrow>
           if l < timestamp
           then [ManualScroll ((smoothedScrollSpeed s * SMOOTH_FACTOR
                   + targetSpeed (leftStickY (axes g)) * (1 - SMOOTH_FACTOR))
                   * ((timestamp - l) / 1000) * 50)]
           else [])
      @ map Dispatch (snd (processButtons timestamp (buttons g) (lastPress s, []))) \<and>
    isPlaying (fst (fold (runEffect snap now) [PauseFromManualScroll, ManualScroll d] (a, vp)))
      = False \<and>
    pauseStart (fst (fold (runEffect snap now) [PauseFromManualScroll, ManualScroll d] (a, vp)))
      = Some now \<and>
    snd (fold (runEffect snap now) [PauseFromManualScroll, ManualScroll d] (a, vp))
      = vp\<lparr>scrollContainer :=
             Some (el\<lparr>scrollTop := min (max (scrollTop el + d) 0) (maxScrollTop el)\<rparr>)\<rparr> \<and>
    isPlaying (handlePauseFromManualScroll snap now a) = False \<and>
    scrollContainer (snd (tickFrame timestamp snap (handlePauseFromManualScroll snap now a, vp)))
      = Some (let w = real_of_int \<lfloor>scrollAccumulator vp
                   + autoscrollPxPerSec (speed snap) (fontSizePx snap * LINE_HEIGHT_EM)
                     * ((timestamp
                          - (case vp_lastTimestamp vp of None \<Rightarrow> timestamp | Some l \<Rightarrow> l))
                        / 1000)\<rfloor>
              in if w \<noteq> 0
                 then el\<lparr>scrollTop := min (max (scrollTop el + w) 0) (maxScrollTop el)\<rparr>
                 else el)"
proof -
  have trace: "snd (snd (pollGamepad timestamp (isPlaying snap) g acc)) =
      snd (snd acc) @
      PauseFromManualScroll #
      (case gp_lastTimestamp (fst acc) of
         None \<Rightarrow> []
       | Some l \<Rightarrow>
           if l < timestamp
           then [ManualScroll ((smoothedScrollSpeed (fst acc) * SMOOTH_FACTOR
                   + targetSpeed (leftStickY (axes g)) * (1 - SMOOTH_FACTOR))
                   * ((timestamp - l) / 1000) * 50)]
           else [])"
    using assms(1,2)
    by (simp add: pollGamepad_def processAxis_def Let_def split: option.splits)
  have devices: "pollDevices timestamp (isPlaying snap) (gamepads @ [Some g]) s
      = pollGamepad timestamp (isPlaying snap) g
          (pollDevices timestamp (isPlaying snap) gamepads s)"
    by (simp add: pollDevices_def)
  have calls: "snd (poll timestamp (isPlaying snap) gamepads s)
      = snd (snd (pollDevices timestamp (isPlaying snap) gamepads s))
        @ map Dispatch (fst (snd (pollDevices timestamp (isPlaying snap) gamepads s)))"
    by (simp add: poll_def Let_def)
  have single: "snd (poll timestamp (isPlaying snap) [Some g] s) =
      PauseFromManualScroll #
      (case gp_lastTimestamp s of
         None \<Rightarrow> []
       | Some l \<Rightarrow>
           if l < timestamp
           then [ManualScroll ((smoothedScrollSpeed s * SMOOTH_FACTOR
                   + targetSpeed (leftStickY (axes g)) * (1 - SMOOTH_FACTOR))
                   * ((timestamp - l) / 1000) * 50)]
           else [])
      @ map Dispatch (snd (processButtons timestamp (buttons g) (lastPress s, [])))"
    using assms(1,2)
    by (simp add: poll_def pollDevices_def pollGamepad_def processAxis_def Let_def
        split: option.splits)
  have paused: "\<not> isPlaying (handlePauseFromManualScroll snap now a)"
    and start: "pauseStart (handlePauseFromManualScroll snap now a) = Some now"
    using assms(1) by (simp_all add: handlePauseFromManualScroll_def handlePause_def)
  have run: "fold (runEffect snap now) [PauseFromManualScroll, ManualScroll d] (a, vp) =
      (notifyAll snap (snd (manualScroll d vp)) (handlePauseFromManualScroll snap now a),
       fst (manualScroll d vp))"
    by (simp add: runEffect_def handleManualScroll_def Let_def)
  have manual: "fst (manualScroll d vp)
      = vp\<lparr>scrollContainer :=
             Some (el\<lparr>scrollTop := min (max (scrollTop el + d) 0) (maxScrollTop el)\<rparr>)\<rparr>"
    using assms(3) by (simp add: manualScroll_def scrollBy_def setScrollTop_def Let_def)
  have autoscroll: "scrollContainer
        (snd (tickFrame timestamp snap (handlePauseFromManualScroll snap now a, vp)))
      = Some (let w = real_of_int \<lfloor>scrollAccumulator vp
                   + autoscrollPxPerSec (speed snap) (fontSizePx snap * LINE_HEIGHT_EM)
                     * ((timestamp
                          - (case vp_lastTimestamp vp of None \<Rightarrow> timestamp | Some l \<Rightarrow> l))
                        / 1000)\<rfloor>
              in if w \<noteq> 0
                 then el\<lparr>scrollTop := min (max (scrollTop el + w) 0) (maxScrollTop el)\<rparr>
                 else el)"
    using assms(1,3) by (simp add: tickFrame_def tick_def Let_def setScrollTop_def)
  show ?thesis
    unfolding run
    using trace devices calls single notifyAll_keeps_paused[OF paused] paused start manual
      autoscroll
    by (simp add: notifyAll_keeps_pauseStart)
qed

lemma poll_full_deflection:
  "snd (poll 100 True [Some \<lparr>buttons = [], axes = [0, 1]\<rparr>]
          \<lparr>lastPress = Map.empty, gp_lastTimestamp = Some 0, smoothedScrollSpeed = 0\<rparr>)
   = [PauseFromManualScroll, ManualScroll 12.5]"
  by (simp add: poll_def pollDevices_def pollGamepad_def processButtons_def buttonBindings_def
      pressed_def processAxis_def leftStickY_def DEADZONE_def Let_def targetSpeed_def
      SMOOTH_FACTOR_def MANUAL_SCROLL_MIN_def MANUAL_SCROLL_MAX_def)

theorem manual_input_pauses_before_delta_witness:
  "isPlaying \<lparr>isPlaying = True, speed = 1, fontSizePx = 40, mirror = False, elapsedTime = 0,
      remainingTime = 0, progress = 0, containerHeight = 0, startTime = Some 1000,
      pausedTime = 0, pauseStart = None\<rparr> \<and>
   DEADZONE < \<bar>leftStickY (axes \<lparr>buttons = [], axes = [0, 1]\<rparr>)\<bar> \<and>
   scrollContainer
     \<lparr>scrollContainer = Some \<lparr>scrollTop = 100, scrollHeight = 1000, clientHeight = 200\<rparr>,
      vp_lastTimestamp = Some 0, scrollAccumulator = 0\<rparr>
     = Some \<lparr>scrollTop = 100, scrollHeight = 1000, clientHeight = 200\<rparr> \<and>
   snd (poll 100 True [Some \<lparr>buttons = [], axes = [0, 1]\<rparr>]
          \<lparr>lastPress = Map.empty, gp_lastTimestamp = Some 0, smoothedScrollSpeed = 0\<rparr>)
     = [PauseFromManualScroll, ManualScroll 12.5]"
proof -
  have h1: "isPlaying \<lparr>isPlaying = True, speed = 1, fontSizePx = 40, mirror = False,
      elapsedTime = 0, remainingTime = 0, progress = 0, containerHeight = 0,
      startTime = Some 1000, pausedTime = 0, pauseStart = None\<rparr>"
    by simp
  have h2: "DEADZONE < \<bar>leftStickY (axes \<lparr>buttons = [], axes = [0, 1]\<rparr>)\<bar>"
    by (simp add: leftStickY_def DEADZONE_def)
  have h3: "scrollContainer
     \<lparr>scrollContainer = Some \<lparr>scrollTop = 100, scrollHeight = 1000, clientHeight = 200\<rparr>,
      vp_lastTimestamp = Some 0, scrollAccumulator = 0\<rparr>
     = Some \<lparr>scrollTop = 100, scrollHeight = 1000, clientHeight = 200\<rparr>"
    by simp
  note r = manual_input_pauses_before_delta[OF h1 h2 h3,
      THEN conjunct2, THEN conjunct2, THEN conjunct2, THEN conjunct1,
      of 100 "\<lparr>lastPress = Map.empty, gp_lastTimestamp = Some 0, smoothedScrollSpeed = 0\<rparr>"]
  show ?thesis
    using h1 h2 r
    by (simp add: processButtons_def buttonBindings_def pressed_def leftStickY_def
        targetSpeed_def DEADZONE_def SMOOTH_FACTOR_def MANUAL_SCROLL_MIN_def
        MANUAL_SCROLL_MAX_def Let_def)
qed

text \<open>
  Claim C3 as stated fails in two ways. A stick beyond the deadzone does not always
  produce an analog delta: on the sampler's first frame the pause is requested and nothing
  is scrolled. And the autoscroll delta of the same frame is applied: the pause only asks
  for a new render, while the \<open>tick\<close> of the frame is the closure that saw
  \<open>isPlaying = true\<close>. With the offset at 100, an autoscroll step of 2px and an analog
  delta of 12.5px, the frame ends at 114.5 and not at 112.5, whichever callback runs first.
\<close>

theorem autoscroll_still_applied_in_manual_frame:
  "snd (poll 100 True [Some \<lparr>buttons = [], axes = [0, 1]\<rparr>] initial_sampler)
     = [PauseFromManualScroll] \<and>
   snd (poll 100 True [Some \<lparr>buttons = [], axes = [0, 1]\<rparr>]
          \<lparr>lastPress = Map.empty, gp_lastTimestamp = Some 0, smoothedScrollSpeed = 0\<rparr>)
     = [PauseFromManualScroll, ManualScroll 12.5] \<and>
   map_option scrollTop (scrollContainer (snd (fst
     (pollFrame 100 1100 [Some \<lparr>buttons = [], axes = [0, 1]\<rparr>]
        \<lparr>isPlaying = True, speed = 1, fontSizePx = 40, mirror = False, elapsedTime = 0,
          remainingTime = 0, progress = 0, containerHeight = 0, startTime = Some 1000,
          pausedTime = 0, pauseStart = None\<rparr>
        (tickFrame 100
           \<lparr>isPlaying = True, speed = 1, fontSizePx = 40, mirror = False, elapsedTime = 0,
             remainingTime = 0, progress = 0, containerHeight = 0, startTime = Some 1000,
             pausedTime = 0, pauseStart = None\<rparr>
           (\<lparr>isPlaying = True, speed = 1, fontSizePx = 40, mirror = False, elapsedTime = 0,
              remainingTime = 0, progress = 0, containerHeight = 0, startTime = Some 1000,
              pausedTime = 0, pauseStart = None\<rparr>,
            \<lparr>scrollContainer = Some \<lparr>scrollTop = 100, scrollHeight = 1000, clientHeight = 200\<rparr>,
              vp_lastTimestamp = Some 0, scrollAccumulator = 0\<rparr>),
         \<lparr>lastPress = Map.empty, gp_lastTimestamp = Some 0, smoothedScrollSpeed = 0\<rparr>)))))
     = Some 114.5 \<and>
   map_option scrollTop (scrollContainer (snd
     (tickFrame 100
        \<lparr>isPlaying = True, speed = 1, fontSizePx = 40, mirror = False, elapsedTime = 0,
          remainingTime = 0, progress = 0, containerHeight = 0, startTime = Some 1000,
          pausedTime = 0, pauseStart = None\<rparr>
        (fst (pollFrame 100 1100 [Some \<lparr>buttons = [], axes = [0, 1]\<rparr>]
           \<lparr>isPlaying = True, speed = 1, fontSizePx = 40, mirror = False, elapsedTime = 0,
             remainingTime = 0, progress = 0, containerHeight = 0, startTime = Some 1000,
             pausedTime = 0, pauseStart = None\<rparr>
           ((\<lparr>isPlaying = True, speed = 1, fontSizePx = 40, mirror = False, elapsedTime = 0,
               remainingTime = 0, progress = 0, containerHeight = 0, startTime = Some 1000,
               pausedTime = 0, pauseStart = None\<rparr>,
             \<lparr>scrollContainer = Some \<lparr>scrollTop = 100, scrollHeight = 1000, clientHeight = 200\<rparr>,
               vp_lastTimestamp = Some 0, scrollAccumulator = 0\<rparr>),
            \<lparr>lastPress = Map.empty, gp_lastTimestamp = Some 0, smoothedScrollSpeed = 0\<rparr>))))))
     = Some 114.5"
proof -
  have first: "snd (poll 100 True [Some \<lparr>buttons = [], axes = [0, 1]\<rparr>] initial_sampler)
     = [PauseFromManualScroll]"
    by (simp add: poll_def pollDevices_def pollGamepad_def processButtons_def buttonBindings_def
        pressed_def initial_sampler_def processAxis_def leftStickY_def DEADZONE_def Let_def)
  show ?thesis
    unfolding first
    by (simp add: pollFrame_def tickFrame_def poll_full_deflection runEffect_def
        handleManualScroll_def manualScroll_def scrollBy_def setScrollTop_def maxScrollTop_def
        tick_def autoscrollPxPerSec_def LINE_HEIGHT_EM_def Let_def)
qed

section \<open>End of content\<close>

text \<open>
  Claim C4, as amended. With \<open>scrollHeight = 1000\<close> and \<open>clientHeight = 200\<close>, at offset
  799, an autoscroll frame whose accumulator yields two whole pixels leaves the offset at
  800, the end of the range. It reports the end twice: \<open>notifyScroll\<close> calls \<open>onReachEnd\<close>
  after \<open>onScrollChange\<close>, and \<open>tick\<close> calls it again in its own check. After the frame
  \<open>isPlaying\<close> is false and the offset is still 800.
\<close>

theorem end_of_content_signals:
  assumes "isPlaying snap"
    and "scrollContainer vp = Some \<lparr>scrollTop = 799, scrollHeight = 1000, clientHeight = 200\<rparr>"
    and "vp_lastTimestamp vp = Some l"
    and "\<lfloor>scrollAccumulator vp
           + autoscrollPxPerSec (speed snap) (fontSizePx snap * LINE_HEIGHT_EM)
             * ((timestamp - l) / 1000)\<rfloor> = 2"
  shows "snd (tick timestamp (isPlaying snap) (speed snap) (fontSizePx snap * LINE_HEIGHT_EM) vp)
           = [ScrollChange 800 1000 200, ReachEnd, ReachEnd] \<and>
         scrollContainer (snd (tickFrame timestamp snap (a, vp)))
           = Some \<lparr>scrollTop = 800, scrollHeight = 1000, clientHeight = 200\<rparr> \<and>
         isPlaying (fst (tickFrame timestamp snap (a, vp))) = False"
  using assms
  by (simp add: tickFrame_def tick_def Let_def setScrollTop_def maxScrollTop_def notifyScroll_def
      getScrollInfo_def DEAD_BAND_def notifyAll_def notify_def onReachEnd_def
      handleScrollChange_def)

theorem end_of_content_signals_witness:
  "isPlaying \<lparr>isPlaying = True, speed = 1, fontSizePx = 40, mirror = False, elapsedTime = 0,
      remainingTime = 0, progress = 0, containerHeight = 0, startTime = Some 1000,
      pausedTime = 0, pauseStart = None\<rparr> \<and>
   snd (tick 100 True 1 (40 * LINE_HEIGHT_EM)
     \<lparr>scrollContainer = Some \<lparr>scrollTop = 799, scrollHeight = 1000, clientHeight = 200\<rparr>,
      vp_lastTimestamp = Some 0, scrollAccumulator = 0\<rparr>)
     = [ScrollChange 800 1000 200, ReachEnd, ReachEnd]"
proof -
  have h1: "isPlaying \<lparr>isPlaying = True, speed = 1, fontSizePx = 40, mirror = False,
      elapsedTime = 0, remainingTime = 0, progress = 0, containerHeight = 0,
      startTime = Some 1000, pausedTime = 0, pauseStart = None\<rparr>"
    by simp
  have h2: "scrollContainer
      \<lparr>scrollContainer = Some \<lparr>scrollTop = 799, scrollHeight = 1000, clientHeight = 200\<rparr>,
       vp_lastTimestamp = Some 0, scrollAccumulator = 0\<rparr>
      = Some \<lparr>scrollTop = 799, scrollHeight = 1000, clientHeight = 200\<rparr>"
    by simp
  have h3: "vp_lastTimestamp
      \<lparr>scrollContainer = Some \<lparr>scrollTop = 799, scrollHeight = 1000, clientHeight = 200\<rparr>,
       vp_lastTimestamp = Some 0, scrollAccumulator = 0\<rparr> = Some 0"
    by simp
  have h4: "\<lfloor>scrollAccumulator
      \<lparr>scrollContainer = Some \<lparr>scrollTop = 799, scrollHeight = 1000, clientHeight = 200\<rparr>,
       vp_lastTimestamp = Some 0, scrollAccumulator = 0\<rparr>
      + autoscrollPxPerSec
          (speed \<lparr>isPlaying = True, speed = 1, fontSizePx = 40, mirror = False,
             elapsedTime = 0, remainingTime = 0, progress = 0, containerHeight = 0,
             startTime = Some 1000, pausedTime = 0, pauseStart = None\<rparr>)
          (fontSizePx \<lparr>isPlaying = True, speed = 1, fontSizePx = 40, mirror = False,
             elapsedTime = 0, remainingTime = 0, progress = 0, containerHeight = 0,
             startTime = Some 1000, pausedTime = 0, pauseStart = None\<rparr> * LINE_HEIGHT_EM)
        * ((100 - 0) / 1000)\<rfloor> = 2"
    by (simp add: autoscrollPxPerSec_def LINE_HEIGHT_EM_def)
  note r = end_of_content_signals[OF h1 h2 h3 h4, THEN conjunct1]
  show ?thesis using h1 r by simp
qed

text \<open>
  Claim C4 as stated says that exactly one reached-end signal is fired for that frame. The
  frame fires two.
\<close>

theorem end_of_content_fires_twice:
  "length (filter is_ReachEnd (snd (tick 100 True 1 52
     \<lparr>scrollContainer = Some \<lparr>scrollTop = 799, scrollHeight = 1000, clientHeight = 200\<rparr>,
      vp_lastTimestamp = Some 0, scrollAccumulator = 0\<rparr>))) = 2 \<and>
   length (filter is_ReachEnd (snd (tick 100 True 1 52
     \<lparr>scrollContainer = Some \<lparr>scrollTop = 799, scrollHeight = 1000, clientHeight = 200\<rparr>,
      vp_lastTimestamp = Some 0, scrollAccumulator = 0\<rparr>))) \<noteq> 1"
  by (simp add: tick_def autoscrollPxPerSec_def setScrollTop_def maxScrollTop_def
      notifyScroll_def getScrollInfo_def DEAD_BAND_def Let_def)

section \<open>Jump to start\<close>

lemma resetTimers_notifyAll: "resetTimers (notifyAll snap ns a) = resetTimers a"
proof (induction ns arbitrary: a)
  case Nil
  then show ?case by (simp add: notifyAll_def)
next
  case (Cons n ns)
  have "resetTimers (notify snap n a) = resetTimers a"
    by (cases n)
       (simp_all add: notify_def resetTimers_def handleScrollChange_def Let_def onReachEnd_def)
  then show ?case using Cons.IH[of "notify snap n a"] by (simp add: notifyAll_def)
qed

text \<open>
  Claim C5, as amended. \<open>handleGoToStart\<close> sets the scroll offset to 0, sets \<open>isPlaying\<close>
  to false with no pause pending, and clears the elapsed timer: the start time is reset and
  the accumulated paused duration is 0. It leaves the fractional sub-pixel scroll
  accumulator as it was.
\<close>

theorem jumpToStart_resets_playback_and_timers:
  "isPlaying (fst (handleGoToStart snap (a, vp))) = False \<and>
   startTime (fst (handleGoToStart snap (a, vp))) = None \<and>
   pausedTime (fst (handleGoToStart snap (a, vp))) = 0 \<and>
   pauseStart (fst (handleGoToStart snap (a, vp))) = None \<and>
   fst (getScrollInfo (snd (handleGoToStart snap (a, vp)))) = 0 \<and>
   scrollContainer (snd (handleGoToStart snap (a, vp)))
     = map_option (\<lambda>el. el\<lparr>scrollTop := 0\<rparr>) (scrollContainer vp) \<and>
   scrollAccumulator (snd (handleGoToStart snap (a, vp))) = scrollAccumulator vp"
proof -
  have app: "fst (handleGoToStart snap (a, vp)) = resetTimers a"
    by (simp add: handleGoToStart_def Let_def resetTimers_notifyAll)
  have view: "snd (handleGoToStart snap (a, vp)) = fst (scrollToStart vp)"
    by (simp add: handleGoToStart_def Let_def)
  have "fst (getScrollInfo (fst (scrollToStart vp))) = 0 \<and>
        scrollContainer (fst (scrollToStart vp))
          = map_option (\<lambda>el. el\<lparr>scrollTop := 0\<rparr>) (scrollContainer vp) \<and>
        scrollAccumulator (fst (scrollToStart vp)) = scrollAccumulator vp"
    by (cases "scrollContainer vp")
       (simp_all add: scrollToStart_def Let_def getScrollInfo_def scrollTo_def setScrollTop_def
          maxScrollTop_def)
  then show ?thesis unfolding app view by (simp add: resetTimers_def)
qed

text \<open>
  Claim C5 as stated says that the fractional accumulator is zeroed as well. Nothing in
  \<open>handleGoToStart\<close> reaches it. Take playback at speed 1 with a font size of 40, started
  at offset 0 of a range of 800: an autoscroll frame 50ms after the previous one adds 1.3
  pixels, moves the offset to 1 and leaves \<open>3/10\<close> in the accumulator (first conjunct).
  Jumping to the start from that state leaves the accumulator at \<open>3/10\<close>.
\<close>

theorem jumpToStart_keeps_accumulator:
  "tickFrame 5050
     \<lparr>isPlaying = True, speed = 1, fontSizePx = 40, mirror = False, elapsedTime = 0,
       remainingTime = 1000 / 13, progress = 0, containerHeight = 200,
       startTime = Some 1000000, pausedTime = 0, pauseStart = None\<rparr>
     (\<lparr>isPlaying = True, speed = 1, fontSizePx = 40, mirror = False, elapsedTime = 0,
        remainingTime = 1000 / 13, progress = 0, containerHeight = 200,
        startTime = Some 1000000, pausedTime = 0, pauseStart = None\<rparr>,
      \<lparr>scrollContainer = Some \<lparr>scrollTop = 0, scrollHeight = 1000, clientHeight = 200\<rparr>,
        vp_lastTimestamp = Some 5000, scrollAccumulator = 0\<rparr>)
   = (\<lparr>isPlaying = True, speed = 1, fontSizePx = 40, mirror = False, elapsedTime = 0,
        remainingTime = 3995 / 52, progress = 1 / 8, containerHeight = 200,
        startTime = Some 1000000, pausedTime = 0, pauseStart = None\<rparr>,
      \<lparr>scrollContainer = Some \<lparr>scrollTop = 1, scrollHeight = 1000, clientHeight = 200\<rparr>,
        vp_lastTimestamp = Some 5050, scrollAccumulator = 3 / 10\<rparr>) \<and>
   scrollAccumulator (snd (handleGoToStart
      \<lparr>isPlaying = True, speed = 1, fontSizePx = 40, mirror = False, elapsedTime = 0,
        remainingTime = 3995 / 52, progress = 1 / 8, containerHeight = 200,
        startTime = Some 1000000, pausedTime = 0, pauseStart = None\<rparr>
      (\<lparr>isPlaying = True, speed = 1, fontSizePx = 40, mirror = False, elapsedTime = 0,
         remainingTime = 3995 / 52, progress = 1 / 8, containerHeight = 200,
         startTime = Some 1000000, pausedTime = 0, pauseStart = None\<rparr>,
       \<lparr>scrollContainer = Some \<lparr>scrollTop = 1, scrollHeight = 1000, clientHeight = 200\<rparr>,
         vp_lastTimestamp = Some 5050, scrollAccumulator = 3 / 10\<rparr>))) = 3 / 10 \<and>
   scrollAccumulator (snd (handleGoToStart
      \<lparr>isPlaying = True, speed = 1, fontSizePx = 40, mirror = False, elapsedTime = 0,
        remainingTime = 3995 / 52, progress = 1 / 8, containerHeight = 200,
        startTime = Some 1000000, pausedTime = 0, pauseStart = None\<rparr>
      (\<lparr>isPlaying = True, speed = 1, fontSizePx = 40, mirror = False, elapsedTime = 0,
         remainingTime = 3995 / 52, progress = 1 / 8, containerHeight = 200,
         startTime = Some 1000000, pausedTime = 0, pauseStart = None\<rparr>,
       \<lparr>scrollContainer = Some \<lparr>scrollTop = 1, scrollHeight = 1000, clientHeight = 200\<rparr>,
         vp_lastTimestamp = Some 5050, scrollAccumulator = 3 / 10\<rparr>))) \<noteq> 0"
proof -
  have reach: "tickFrame 5050
     \<lparr>isPlaying = True, speed = 1, fontSizePx = 40, mirror = False, elapsedTime = 0,
       remainingTime = 1000 / 13, progress = 0, containerHeight = 200,
       startTime = Some 1000000, pausedTime = 0, pauseStart = None\<rparr>
     (\<lparr>isPlaying = True, speed = 1, fontSizePx = 40, mirror = False, elapsedTime = 0,
        remainingTime = 1000 / 13, progress = 0, containerHeight = 200,
        startTime = Some 1000000, pausedTime = 0, pauseStart = None\<rparr>,
      \<lparr>scrollContainer = Some \<lparr>scrollTop = 0, scrollHeight = 1000, clientHeight = 200\<rparr>,
        vp_lastTimestamp = Some 5000, scrollAccumulator = 0\<rparr>)
   = (\<lparr>isPlaying = True, speed = 1, fontSizePx = 40, mirror = False, elapsedTime = 0,
        remainingTime = 3995 / 52, progress = 1 / 8, containerHeight = 200,
        startTime = Some 1000000, pausedTime = 0, pauseStart = None\<rparr>,
      \<lparr>scrollContainer = Some \<lparr>scrollTop = 1, scrollHeight = 1000, clientHeight = 200\<rparr>,
        vp_lastTimestamp = Some 5050, scrollAccumulator = 3 / 10\<rparr>)"
    by (simp add: tickFrame_def tick_def autoscrollPxPerSec_def LINE_HEIGHT_EM_def Let_def
        setScrollTop_def maxScrollTop_def notifyScroll_def getScrollInfo_def DEAD_BAND_def
        notifyAll_def notify_def handleScrollChange_def telemetryPxPerSec_def clamp_def
        MIN_SPEED_def MAX_SPEED_def)
  show ?thesis
    unfolding reach by (simp add: handleGoToStart_def scrollToStart_def Let_def)
qed

section \<open>The scroll offset stays in range\<close>

lemma maxScrollTop_nonneg: "0 \<le> maxScrollTop el"
  by (simp add: maxScrollTop_def)

lemma setScrollTop_in_range:
  "0 \<le> scrollTop (setScrollTop el v) \<and>
   scrollTop (setScrollTop el v) \<le> maxScrollTop (setScrollTop el v)"
  using maxScrollTop_nonneg[of el] by (simp add: setScrollTop_def maxScrollTop_def)

lemma offset_in_range_set: "offset_in_range (vp\<lparr>scrollContainer := Some (setScrollTop el v)\<rparr>)"
  using setScrollTop_in_range[of el v] by (simp add: offset_in_range_def)

lemma manualScroll_in_range:
  "offset_in_range vp \<Longrightarrow> offset_in_range (fst (manualScroll delta vp))"
  by (cases "scrollContainer vp")
     (simp_all add: manualScroll_def scrollBy_def Let_def offset_in_range_set)

lemma scrollToStart_in_range: "offset_in_range vp \<Longrightarrow> offset_in_range (fst (scrollToStart vp))"
  by (cases "scrollContainer vp")
     (simp_all add: scrollToStart_def scrollTo_def Let_def offset_in_range_set)

lemma scrollToEnd_in_range: "offset_in_range vp \<Longrightarrow> offset_in_range (fst (scrollToEnd vp))"
  by (cases "scrollContainer vp")
     (simp_all add: scrollToEnd_def scrollTo_def Let_def offset_in_range_set)

lemma tick_in_range:
  assumes "offset_in_range vp"
  shows "offset_in_range (fst (tick timestamp playing spd lineHeightPx vp))"
proof (cases "scrollContainer vp")
  case None
  then show ?thesis using assms by (simp add: tick_def offset_in_range_def)
next
  case (Some el)
  have r: "0 \<le> scrollTop el \<and> scrollTop el \<le> maxScrollTop el"
    using assms Some by (simp add: offset_in_range_def)
  show ?thesis
    using Some r setScrollTop_in_range[of el]
    by (simp add: tick_def Let_def offset_in_range_def)
qed

lemma applyOp_in_range: "offset_in_range vp \<Longrightarrow> offset_in_range (applyOp op vp)"
  by (cases op)
     (simp_all add: applyOp_def manualScroll_in_range tick_in_range scrollToStart_in_range
        scrollToEnd_in_range)

text \<open>
  Claim C6. From a state with \<open>0 \<le> offset \<le> extent\<close>, every sequence of manual scroll
  deltas (of any sign and size), autoscroll frames and jumps leaves \<open>0 \<le> offset \<le> extent\<close>.
  The callers pass their deltas unclamped; the bound comes from the scroll container, at
  the point where the offset is written.
\<close>

theorem offset_invariant:
  assumes "offset_in_range vp"
  shows "offset_in_range (applyOps ops vp)"
  using assms
proof (induction ops arbitrary: vp)
  case Nil
  then show ?case by (simp add: applyOps_def)
next
  case (Cons op ops)
  have "offset_in_range (applyOp op vp)" using Cons.prems by (rule applyOp_in_range)
  then have "offset_in_range (applyOps ops (applyOp op vp))" by (rule Cons.IH)
  then show ?case by (simp add: applyOps_def)
qed

theorem offset_invariant_witness:
  "offset_in_range
     \<lparr>scrollContainer = Some \<lparr>scrollTop = 100, scrollHeight = 1000, clientHeight = 200\<rparr>,
      vp_lastTimestamp = Some 0, scrollAccumulator = 0\<rparr> \<and>
   offset_in_range (applyOps
     [OpManualScroll 5000, OpManualScroll (- 9000), OpTick 100 True 50 93.6, OpScrollToEnd,
      OpManualScroll 1]
     \<lparr>scrollContainer = Some \<lparr>scrollTop = 100, scrollHeight = 1000, clientHeight = 200\<rparr>,
      vp_lastTimestamp = Some 0, scrollAccumulator = 0\<rparr>)"
proof -
  have h: "offset_in_range
     \<lparr>scrollContainer = Some \<lparr>scrollTop = 100, scrollHeight = 1000, clientHeight = 200\<rparr>,
      vp_lastTimestamp = Some 0, scrollAccumulator = 0\<rparr>"
    by (simp add: offset_in_range_def maxScrollTop_def)
  show ?thesis by (rule conjI[OF h offset_invariant[OF h]])
qed

section \<open>Deadzone\<close>

text \<open>
  Claim C7. For a device whose vertical stick displacement has magnitude at most
  \<open>DEADZONE\<close>, the frame makes no call on \<open>controls\<close> for the axis (no pause request and
  no scroll delta), sets the smoothed speed to exactly 0 and sets the sampler's last
  timestamp to the frame's timestamp.
\<close>

theorem deadzone_resets_velocity:
  assumes "\<bar>leftStickY (axes g)\<bar> \<le> DEADZONE"
  shows "smoothedScrollSpeed (fst (pollGamepad timestamp playing g acc)) = 0 \<and>
         gp_lastTimestamp (fst (pollGamepad timestamp playing g acc)) = Some timestamp \<and>
         snd (snd (pollGamepad timestamp playing g acc)) = snd (snd acc) \<and>
         snd (poll timestamp playing [Some g] s)
           = map Dispatch (snd (processButtons timestamp (buttons g) (lastPress s, []))) \<and>
         smoothedScrollSpeed (fst (poll timestamp playing [Some g] s)) = 0 \<and>
         gp_lastTimestamp (fst (poll timestamp playing [Some g] s)) = Some timestamp"
  using assms
  by (simp add: poll_def pollDevices_def pollGamepad_def Let_def processAxis_def)

theorem deadzone_resets_velocity_witness:
  "\<bar>leftStickY (axes \<lparr>buttons = [], axes = [0, 0.10]\<rparr>)\<bar> \<le> DEADZONE \<and>
   snd (poll 16 True [Some \<lparr>buttons = [], axes = [0, 0.10]\<rparr>]
          \<lparr>lastPress = Map.empty, gp_lastTimestamp = Some 0, smoothedScrollSpeed = 7\<rparr>) = [] \<and>
   smoothedScrollSpeed (fst (poll 16 True [Some \<lparr>buttons = [], axes = [0, 0.10]\<rparr>]
          \<lparr>lastPress = Map.empty, gp_lastTimestamp = Some 0, smoothedScrollSpeed = 7\<rparr>)) = 0 \<and>
   gp_lastTimestamp (fst (poll 16 True [Some \<lparr>buttons = [], axes = [0, 0.10]\<rparr>]
          \<lparr>lastPress = Map.empty, gp_lastTimestamp = Some 0, smoothedScrollSpeed = 7\<rparr>)) = Some 16"
proof -
  have h: "\<bar>leftStickY (axes \<lparr>buttons = [], axes = [0, 0.10]\<rparr>)\<bar> \<le> DEADZONE"
    by (simp add: leftStickY_def DEADZONE_def)
  note r = deadzone_resets_velocity[OF h, THEN conjunct2, THEN conjunct2, THEN conjunct2,
      of 16 True "\<lparr>lastPress = Map.empty, gp_lastTimestamp = Some 0, smoothedScrollSpeed = 7\<rparr>"]
  show ?thesis
    using h r by (simp add: processButtons_def buttonBindings_def pressed_def)
qed

section \<open>Speed curves\<close>

text \<open>
  Claim C8. For speed levels \<open>1 \<le> a \<le> b \<le> 50\<close> and a positive line height (font size),
  the linear autoscroll curve and the eased telemetry curve are both non-decreasing in the
  speed level, and each is its lines-per-second value, \<open>0.5 + 9.5 t\<close> and
  \<open>0.2 + 4.8 t\<^sup>1\<^sup>.\<^sup>2\<close> with \<open>t = (level - 1) / 49\<close>, times the line height in pixels.
\<close>

theorem speed_curves_monotone:
  assumes "1 \<le> a" and "a \<le> b" and "b \<le> 50" and "0 < lineHeightPx" and "0 < fontSize"
  shows "autoscrollPxPerSec a lineHeightPx \<le> autoscrollPxPerSec b lineHeightPx \<and>
         telemetryPxPerSec a fontSize \<le> telemetryPxPerSec b fontSize \<and>
         autoscrollPxPerSec a lineHeightPx = (0.5 + 9.5 * ((a - 1) / 49)) * lineHeightPx \<and>
         telemetryPxPerSec a fontSize
           = (0.2 + 4.8 * ((a - 1) / 49) powr 1.2) * (fontSize * 1.3)"
proof -
  have m1: "0.5 + 9.5 * ((a - 1) / 49) \<le> 0.5 + 9.5 * ((b - 1) / 49)"
    using assms(2) by simp
  have 1: "autoscrollPxPerSec a lineHeightPx \<le> autoscrollPxPerSec b lineHeightPx"
    unfolding autoscrollPxPerSec_def Let_def
    using m1 assms(4) by (simp only: mult_le_cancel_right_pos)
  have "((a - 1) / 49) powr 1.2 \<le> ((b - 1) / 49) powr 1.2"
    using assms(1,2) by (intro powr_mono2) simp_all
  then have m2: "0.2 + 4.8 * ((a - 1) / 49) powr 1.2 \<le> 0.2 + 4.8 * ((b - 1) / 49) powr 1.2"
    by simp
  have "0 < fontSize * 1.3" using assms(5) by simp
  then have 2: "telemetryPxPerSec a fontSize \<le> telemetryPxPerSec b fontSize"
    unfolding telemetryPxPerSec_def Let_def MIN_SPEED_def MAX_SPEED_def
    using m2 by (simp add: mult_le_cancel_right_pos)
  show ?thesis
    using 1 2
    by (simp add: autoscrollPxPerSec_def telemetryPxPerSec_def Let_def MIN_SPEED_def
        MAX_SPEED_def)
qed

theorem speed_curves_monotone_witness:
  "(1::real) \<le> 20 \<and> (20::real) \<le> 21 \<and> (21::real) \<le> 50 \<and> (0::real) < 93.6 \<and> (0::real) < 72 \<and>
   autoscrollPxPerSec 20 93.6 \<le> autoscrollPxPerSec 21 93.6 \<and>
   telemetryPxPerSec 20 72 \<le> telemetryPxPerSec 21 72"
proof -
  have h1: "(1::real) \<le> 20" and h2: "(20::real) \<le> 21" and h3: "(21::real) \<le> 50"
    and h4: "(0::real) < 93.6" and h5: "(0::real) < 72"
    by simp_all
  note r = speed_curves_monotone[OF h1 h2 h3 h4 h5]
  show ?thesis
    by (intro conjI h1 h2 h3 h4 h5 r[THEN conjunct1] r[THEN conjunct2, THEN conjunct1])
qed

section \<open>Order of the calls in a frame\<close>

lemma processAxis_no_dispatch:
  "e \<in> set (snd (processAxis timestamp playing y refs)) \<Longrightarrow> \<not> is_Dispatch e"
  by (auto simp: processAxis_def Let_def split: if_splits)

lemma pollGamepad_no_dispatch:
  assumes "\<forall>e \<in> set (snd (snd acc)). \<not> is_Dispatch e"
  shows "\<forall>e \<in> set (snd (snd (pollGamepad timestamp playing g acc))). \<not> is_Dispatch e"
  using assms processAxis_no_dispatch by (auto simp: pollGamepad_def Let_def)

lemma fold_devices_no_dispatch:
  assumes "\<forall>e \<in> set (snd (snd acc)). \<not> is_Dispatch e"
  shows "\<forall>e \<in> set (snd (snd (fold
           (\<lambda>g acc. case g of None \<Rightarrow> acc | Some gp \<Rightarrow> pollGamepad timestamp playing gp acc)
           gamepads acc))). \<not> is_Dispatch e"
  using assms
proof (induction gamepads arbitrary: acc)
  case Nil
  then show ?case by simp
next
  case (Cons g gs)
  show ?case
  proof (cases g)
    case None
    then show ?thesis using Cons by simp
  next
    case (Some gp)
    have "\<forall>e \<in> set (snd (snd (pollGamepad timestamp playing gp acc))). \<not> is_Dispatch e"
      using Cons.prems by (rule pollGamepad_no_dispatch)
    from Cons.IH[OF this] show ?thesis using Some by simp
  qed
qed

lemma pollDevices_no_dispatch:
  "\<forall>e \<in> set (snd (snd (pollDevices timestamp playing gamepads s))). \<not> is_Dispatch e"
  unfolding pollDevices_def by (rule fold_devices_no_dispatch) simp

text \<open>
  Claim C9. The calls of a sampler frame are those of the device loop over every connected
  device (pause requests and analog scroll deltas, no button action among them), followed
  by the queued button actions. So once a button action has run, only button actions
  follow in that frame: none runs before a continuous delta.
\<close>

theorem dispatch_after_continuous:
  assumes "i < j" and "j < length (snd (poll timestamp playing gamepads s))"
    and "is_Dispatch (snd (poll timestamp playing gamepads s) ! i)"
  shows "is_Dispatch (snd (poll timestamp playing gamepads s) ! j) \<and>
         snd (poll timestamp playing gamepads s) =
           snd (snd (pollDevices timestamp playing gamepads s))
           @ map Dispatch (fst (snd (pollDevices timestamp playing gamepads s)))"
proof -
  define cs where "cs = snd (snd (pollDevices timestamp playing gamepads s))"
  define qs where "qs = fst (snd (pollDevices timestamp playing gamepads s))"
  have tr: "snd (poll timestamp playing gamepads s) = cs @ map Dispatch qs"
    by (simp add: poll_def Let_def cs_def qs_def)
  have nd: "\<forall>e \<in> set cs. \<not> is_Dispatch e"
    unfolding cs_def by (rule pollDevices_no_dispatch)
  have "\<not> i < length cs"
  proof
    assume "i < length cs"
    then have "(cs @ map Dispatch qs) ! i \<in> set cs" by (simp add: nth_append)
    then show False using nd assms(3) tr by auto
  qed
  then have "\<not> j < length cs" using assms(1) by simp
  moreover have "j - length cs < length qs"
    using assms(1,2) \<open>\<not> j < length cs\<close> tr by simp
  ultimately have "is_Dispatch ((cs @ map Dispatch qs) ! j)"
    by (simp add: nth_append)
  then show ?thesis using tr by (simp add: cs_def qs_def)
qed

theorem dispatch_after_continuous_witness:
  "(2::nat) < 3 \<and>
   3 < length (snd (poll 300 True [Some \<lparr>buttons = [True, False, False, True], axes = [0, 1]\<rparr>]
          \<lparr>lastPress = Map.empty, gp_lastTimestamp = Some 200, smoothedScrollSpeed = 0\<rparr>)) \<and>
   is_Dispatch (snd (poll 300 True [Some \<lparr>buttons = [True, False, False, True], axes = [0, 1]\<rparr>]
          \<lparr>lastPress = Map.empty, gp_lastTimestamp = Some 200, smoothedScrollSpeed = 0\<rparr>) ! 2) \<and>
   is_Dispatch (snd (poll 300 True [Some \<lparr>buttons = [True, False, False, True], axes = [0, 1]\<rparr>]
          \<lparr>lastPress = Map.empty, gp_lastTimestamp = Some 200, smoothedScrollSpeed = 0\<rparr>) ! 3)"
proof -
  have tr: "snd (poll 300 True [Some \<lparr>buttons = [True, False, False, True], axes = [0, 1]\<rparr>]
          \<lparr>lastPress = Map.empty, gp_lastTimestamp = Some 200, smoothedScrollSpeed = 0\<rparr>)
     = [PauseFromManualScroll, ManualScroll 12.5, Dispatch PlayPause, Dispatch MirrorToggle]"
    by (simp add: poll_def pollDevices_def pollGamepad_def processButtons_def buttonBindings_def
        pressed_def registerPress_def DEBOUNCE_TIME_def processAxis_def leftStickY_def
        DEADZONE_def Let_def targetSpeed_def SMOOTH_FACTOR_def MANUAL_SCROLL_MIN_def
        MANUAL_SCROLL_MAX_def BUTTON_A_def BUTTON_X_def BUTTON_Y_def BUTTON_LB_def
        BUTTON_RB_def BUTTON_DPAD_UP_def BUTTON_DPAD_DOWN_def BUTTON_DPAD_LEFT_def
        BUTTON_DPAD_RIGHT_def)
  have h1: "(2::nat) < 3" by simp
  have h2: "3 < length (snd (poll 300 True
          [Some \<lparr>buttons = [True, False, False, True], axes = [0, 1]\<rparr>]
          \<lparr>lastPress = Map.empty, gp_lastTimestamp = Some 200, smoothedScrollSpeed = 0\<rparr>))"
    unfolding tr by simp
  have h3: "is_Dispatch (snd (poll 300 True
          [Some \<lparr>buttons = [True, False, False, True], axes = [0, 1]\<rparr>]
          \<lparr>lastPress = Map.empty, gp_lastTimestamp = Some 200, smoothedScrollSpeed = 0\<rparr>) ! 2)"
    unfolding tr by simp
  note r = dispatch_after_continuous[OF h1 h2 h3, THEN conjunct1]
  show ?thesis by (intro conjI h1 h2 h3 r)
qed

section \<open>Bound on the smoothed speed\<close>

lemma targetSpeed_bound:
  assumes "\<bar>y\<bar> \<le> 1"
  shows "\<bar>targetSpeed y\<bar> \<le> MANUAL_SCROLL_MAX"
proof -
  define n where "n = (\<bar>y\<bar> - DEADZONE) / (1 - DEADZONE)"
  have "- 1 \<le> n" and "n \<le> 1"
    using assms by (simp_all add: n_def DEADZONE_def)
  then have "\<bar>n\<bar> \<le> 1" by simp
  then have "n ^ 2 \<le> 1" by (simp add: abs_square_le_1)
  moreover have "0 \<le> n ^ 2" by simp
  ultimately have b: "0 \<le> 5 + 20 * n ^ 2" "5 + 20 * n ^ 2 \<le> 25" by simp_all
  have "\<bar>targetSpeed y\<bar> = 5 + 20 * n ^ 2"
    using b
    by (simp add: targetSpeed_def Let_def n_def MANUAL_SCROLL_MIN_def MANUAL_SCROLL_MAX_def
        abs_mult)
  then show ?thesis using b by (simp add: MANUAL_SCROLL_MAX_def)
qed

text \<open>
  One device: inside the deadzone the smoothed speed becomes 0, outside it becomes
  \<open>0.9 \<cdot> smoothed + 0.1 \<cdot> target\<close>.
\<close>

lemma processAxis_smoothing_step:
  "snd (fst (processAxis timestamp playing y refs)) =
     (if DEADZONE < \<bar>y\<bar> then snd refs * 0.9 + targetSpeed y * (1 - 0.9) else 0)"
  by (simp add: processAxis_def Let_def SMOOTH_FACTOR_def)

lemma processAxis_bound:
  assumes "\<bar>y\<bar> \<le> 1" and "\<bar>snd refs\<bar> \<le> MANUAL_SCROLL_MAX"
  shows "\<bar>snd (fst (processAxis timestamp playing y refs))\<bar> \<le> MANUAL_SCROLL_MAX"
proof (cases "DEADZONE < \<bar>y\<bar>")
  case True
  have t: "\<bar>targetSpeed y\<bar> \<le> 25"
    using targetSpeed_bound[OF assms(1)] by (simp add: MANUAL_SCROLL_MAX_def)
  have s: "\<bar>snd refs\<bar> \<le> 25" using assms(2) by (simp add: MANUAL_SCROLL_MAX_def)
  have "\<bar>snd refs * 0.9 + targetSpeed y * (1 - 0.9)\<bar> \<le> 25"
    using t s by (simp add: abs_le_iff)
  then show ?thesis
    using True by (simp add: processAxis_smoothing_step MANUAL_SCROLL_MAX_def)
next
  case False
  then show ?thesis by (simp add: processAxis_smoothing_step MANUAL_SCROLL_MAX_def)
qed

lemma pollGamepad_bound:
  assumes "\<bar>leftStickY (axes g)\<bar> \<le> 1"
    and "\<bar>smoothedScrollSpeed (fst acc)\<bar> \<le> MANUAL_SCROLL_MAX"
  shows "\<bar>smoothedScrollSpeed (fst (pollGamepad timestamp playing g acc))\<bar> \<le> MANUAL_SCROLL_MAX"
  using processAxis_bound[OF assms(1),
      of "(gp_lastTimestamp (fst acc), smoothedScrollSpeed (fst acc))" timestamp playing]
    assms(2)
  by (simp add: pollGamepad_def Let_def)

lemma fold_devices_bound:
  assumes "list_all device_axis_in_range gamepads"
    and "\<bar>smoothedScrollSpeed (fst acc)\<bar> \<le> MANUAL_SCROLL_MAX"
  shows "\<bar>smoothedScrollSpeed (fst (fold
           (\<lambda>g acc. case g of None \<Rightarrow> acc | Some gp \<Rightarrow> pollGamepad timestamp playing gp acc)
           gamepads acc))\<bar> \<le> MANUAL_SCROLL_MAX"
  using assms
proof (induction gamepads arbitrary: acc)
  case Nil
  then show ?case by simp
next
  case (Cons g gs)
  show ?case
  proof (cases g)
    case None
    then show ?thesis using Cons by simp
  next
    case (Some gp)
    have "\<bar>leftStickY (axes gp)\<bar> \<le> 1"
      using Cons.prems(1) Some by (simp add: device_axis_in_range_def)
    then have "\<bar>smoothedScrollSpeed (fst (pollGamepad timestamp playing gp acc))\<bar>
        \<le> MANUAL_SCROLL_MAX"
      using Cons.prems(2) by (rule pollGamepad_bound)
    moreover have "list_all device_axis_in_range gs" using Cons.prems(1) by simp
    ultimately show ?thesis using Cons.IH Some by simp
  qed
qed

lemma poll_bound:
  assumes "list_all device_axis_in_range gamepads"
    and "\<bar>smoothedScrollSpeed s\<bar> \<le> MANUAL_SCROLL_MAX"
  shows "\<bar>smoothedScrollSpeed (fst (poll timestamp playing gamepads s))\<bar> \<le> MANUAL_SCROLL_MAX"
  using fold_devices_bound[OF assms(1), of "(s, [], [])" timestamp playing] assms(2)
  by (simp add: poll_def pollDevices_def Let_def)

lemma run_frames_bound:
  assumes "list_all frame_axes_in_range frames"
    and "\<bar>smoothedScrollSpeed s\<bar> \<le> MANUAL_SCROLL_MAX"
  shows "\<bar>smoothedScrollSpeed (run_frames frames s)\<bar> \<le> MANUAL_SCROLL_MAX"
  using assms
proof (induction frames arbitrary: s)
  case Nil
  then show ?case by (simp add: run_frames_def)
next
  case (Cons f fs)
  have "\<bar>smoothedScrollSpeed (fst (poll (fst f) (fst (snd f)) (snd (snd f)) s))\<bar>
      \<le> MANUAL_SCROLL_MAX"
    using Cons.prems by (simp add: frame_axes_in_range_def poll_bound)
  moreover have "list_all frame_axes_in_range fs" using Cons.prems(1) by simp
  ultimately have "\<bar>smoothedScrollSpeed
      (run_frames fs (fst (poll (fst f) (fst (snd f)) (snd (snd f)) s)))\<bar> \<le> MANUAL_SCROLL_MAX"
    by (rule Cons.IH[rotated])
  then show ?case by (simp add: run_frames_def)
qed

text \<open>
  Claim C10. The smoothed scroll speed starts at 0. A frame is the sampler's \<open>poll\<close> run on
  the state the previous frames left; in it, a device inside the deadzone resets the speed
  to 0 and a device outside it replaces the speed by \<open>0.9 \<cdot> smoothed + 0.1 \<cdot> target\<close>, an
  empty slot or an empty device list leaves it as it is, and for a raw axis value in
  \<open>[-1, 1]\<close> the target has magnitude at most \<open>MANUAL_SCROLL_MAX = 25\<close>. So after any
  sequence of frames in which every device's raw axis value lies in \<open>[-1, 1]\<close> the
  smoothed scroll speed has magnitude at most 25.
\<close>

theorem smoothed_speed_bounded:
  assumes "list_all frame_axes_in_range frames" and "\<bar>leftStickY (axes g)\<bar> \<le> 1"
  shows "smoothedScrollSpeed initial_sampler = 0 \<and>
         \<bar>smoothedScrollSpeed (run_frames frames initial_sampler)\<bar> \<le> MANUAL_SCROLL_MAX \<and>
         run_frames (frames @ [f]) s
           = fst (poll (fst f) (fst (snd f)) (snd (snd f)) (run_frames frames s)) \<and>
         smoothedScrollSpeed (fst (poll timestamp playing (gamepads @ [Some g]) s))
           = (if DEADZONE < \<bar>leftStickY (axes g)\<bar>
              then smoothedScrollSpeed (fst (poll timestamp playing gamepads s)) * 0.9
                   + targetSpeed (leftStickY (axes g)) * 0.1
              else 0) \<and>
         smoothedScrollSpeed (fst (poll timestamp playing (gamepads @ [None]) s))
           = smoothedScrollSpeed (fst (poll timestamp playing gamepads s)) \<and>
         smoothedScrollSpeed (fst (poll timestamp playing [] s)) = smoothedScrollSpeed s \<and>
         \<bar>targetSpeed (leftStickY (axes g))\<bar> \<le> MANUAL_SCROLL_MAX"
proof -
  have bound: "\<bar>smoothedScrollSpeed (run_frames frames initial_sampler)\<bar> \<le> MANUAL_SCROLL_MAX"
    using assms(1)
    by (rule run_frames_bound) (simp add: initial_sampler_def MANUAL_SCROLL_MAX_def)
  have frames: "run_frames (frames @ [f]) s
      = fst (poll (fst f) (fst (snd f)) (snd (snd f)) (run_frames frames s))"
    by (simp add: run_frames_def)
  have step: "smoothedScrollSpeed (fst (poll timestamp playing (gamepads @ [Some g]) s))
      = (if DEADZONE < \<bar>leftStickY (axes g)\<bar>
         then smoothedScrollSpeed (fst (poll timestamp playing gamepads s)) * 0.9
              + targetSpeed (leftStickY (axes g)) * 0.1
         else 0)"
    by (simp add: poll_def pollDevices_def pollGamepad_def Let_def processAxis_smoothing_step)
  have skip: "smoothedScrollSpeed (fst (poll timestamp playing (gamepads @ [None]) s))
      = smoothedScrollSpeed (fst (poll timestamp playing gamepads s))"
    by (simp add: poll_def pollDevices_def Let_def)
  have none: "smoothedScrollSpeed (fst (poll timestamp playing [] s)) = smoothedScrollSpeed s"
    by (simp add: poll_def pollDevices_def Let_def)
  have target: "\<bar>targetSpeed (leftStickY (axes g))\<bar> \<le> MANUAL_SCROLL_MAX"
    using assms(2) by (rule targetSpeed_bound)
  have init: "smoothedScrollSpeed initial_sampler = 0"
    by (simp add: initial_sampler_def)
  show ?thesis
    by (intro conjI init bound frames step skip none target)
qed

theorem smoothed_speed_bounded_witness:
  "list_all frame_axes_in_range
     [(0, False, [Some \<lparr>buttons = [], axes = [0, 1]\<rparr>]),
      (16, False, [Some \<lparr>buttons = [], axes = [0, - 1]\<rparr>, None]),
      (32, True, [Some \<lparr>buttons = [], axes = [0, 0.1]\<rparr>])] \<and>
   \<bar>leftStickY (axes \<lparr>buttons = [], axes = [0, 1]\<rparr>)\<bar> \<le> 1 \<and>
   \<bar>smoothedScrollSpeed (run_frames
     [(0, False, [Some \<lparr>buttons = [], axes = [0, 1]\<rparr>]),
      (16, False, [Some \<lparr>buttons = [], axes = [0, - 1]\<rparr>, None]),
      (32, True, [Some \<lparr>buttons = [], axes = [0, 0.1]\<rparr>])] initial_sampler)\<bar>
     \<le> MANUAL_SCROLL_MAX \<and>
   smoothedScrollSpeed (fst (poll 16 False ([] @ [Some \<lparr>buttons = [], axes = [0, 1]\<rparr>])
       \<lparr>lastPress = Map.empty, gp_lastTimestamp = Some 0, smoothedScrollSpeed = 10\<rparr>))
     = 11.5 \<and>
   \<bar>targetSpeed (leftStickY (axes \<lparr>buttons = [], axes = [0, 1]\<rparr>))\<bar> \<le> MANUAL_SCROLL_MAX"
proof -
  have h1: "list_all frame_axes_in_range
     [(0, False, [Some \<lparr>buttons = [], axes = [0, 1]\<rparr>]),
      (16, False, [Some \<lparr>buttons = [], axes = [0, - 1]\<rparr>, None]),
      (32, True, [Some \<lparr>buttons = [], axes = [0, 0.1]\<rparr>])]"
    by (simp add: frame_axes_in_range_def device_axis_in_range_def leftStickY_def)
  have h2: "\<bar>leftStickY (axes \<lparr>buttons = [], axes = [0, 1]\<rparr>)\<bar> \<le> 1"
    by (simp add: leftStickY_def)
  note r = smoothed_speed_bounded[OF h1 h2]
  note bound = r[THEN conjunct2, THEN conjunct1]
  note step = r[THEN conjunct2, THEN conjunct2, THEN conjunct2, THEN conjunct1,
      of 16 False "[]"
        "\<lparr>lastPress = Map.empty, gp_lastTimestamp = Some 0, smoothedScrollSpeed = 10\<rparr>"]
  note target = r[THEN conjunct2, THEN conjunct2, THEN conjunct2, THEN conjunct2,
      THEN conjunct2, THEN conjunct2]
  have stepped: "smoothedScrollSpeed (fst (poll 16 False
       ([] @ [Some \<lparr>buttons = [], axes = [0, 1]\<rparr>])
       \<lparr>lastPress = Map.empty, gp_lastTimestamp = Some 0, smoothedScrollSpeed = 10\<rparr>))
     = 11.5"
    unfolding step
    by (simp add: poll_def pollDevices_def Let_def leftStickY_def DEADZONE_def targetSpeed_def
        MANUAL_SCROLL_MIN_def MANUAL_SCROLL_MAX_def)
  show ?thesis by (intro conjI h1 h2 bound stepped target)
qed

end
